theory Spec2Isabelle
  imports Complex_Main "HOL-Library.Multiset"
begin

section \<open>Column values\<close>

text \<open>
  The numeric columns of the pandas frames in \<^verbatim>\<open>cpi_calculater.py\<close> are float64
  columns. A value is a finite number, an infinity or NaN. Finite numbers are reals:
  rounding, overflow to infinity and the sign of zero are not part of this model
  (a zero divisor counts as \<open>+0\<close>).
\<close>

datatype fnum = Fin real | PInf | NInf | NaN

fun fadd :: "fnum \<Rightarrow> fnum \<Rightarrow> fnum" where
  "fadd NaN y = NaN"
| "fadd x NaN = NaN"
| "fadd (Fin a) (Fin b) = Fin (a + b)"
| "fadd PInf NInf = NaN"
| "fadd NInf PInf = NaN"
| "fadd PInf y = PInf"
| "fadd NInf y = NInf"
| "fadd (Fin a) y = y"

fun fmul :: "fnum \<Rightarrow> fnum \<Rightarrow> fnum" where
  "fmul NaN y = NaN"
| "fmul x NaN = NaN"
| "fmul (Fin a) (Fin b) = Fin (a * b)"
| "fmul (Fin a) PInf = (if a = 0 then NaN else if 0 < a then PInf else NInf)"
| "fmul (Fin a) NInf = (if a = 0 then NaN else if 0 < a then NInf else PInf)"
| "fmul PInf (Fin b) = (if b = 0 then NaN else if 0 < b then PInf else NInf)"
| "fmul NInf (Fin b) = (if b = 0 then NaN else if 0 < b then NInf else PInf)"
| "fmul PInf PInf = PInf"
| "fmul PInf NInf = NInf"
| "fmul NInf PInf = NInf"
| "fmul NInf NInf = PInf"

text \<open>
  Division of float64 columns never raises: a finite non-zero number over zero is an
  infinity and \<open>0 / 0\<close> is NaN.
\<close>

fun fdiv :: "fnum \<Rightarrow> fnum \<Rightarrow> fnum" where
  "fdiv NaN y = NaN"
| "fdiv x NaN = NaN"
| "fdiv (Fin a) (Fin b) =
     (if b \<noteq> 0 then Fin (a / b)
      else if a = 0 then NaN else if 0 < a then PInf else NInf)"
| "fdiv (Fin a) PInf = Fin 0"
| "fdiv (Fin a) NInf = Fin 0"
| "fdiv PInf (Fin b) = (if 0 \<le> b then PInf else NInf)"
| "fdiv NInf (Fin b) = (if 0 \<le> b then NInf else PInf)"
| "fdiv PInf y = NaN"
| "fdiv NInf y = NaN"

definition isna :: "fnum \<Rightarrow> bool" where
  "isna x = (x = NaN)"

text \<open>
  The sum of a group (\<^verbatim>\<open>groupby(...).agg(... 'sum')\<close>) skips NaN entries and starts
  from zero, so a group with no number in it sums to \<open>0\<close>.
\<close>

definition nansum :: "fnum list \<Rightarrow> fnum" where
  "nansum xs = foldl fadd (Fin 0) (filter (\<lambda>x. \<not> isna x) xs)"

text \<open>
  A cell as the database driver delivers it: a number (or text that reads as one), or
  something \<^verbatim>\<open>pd.to_numeric(..., errors='coerce')\<close> cannot read (other text,
  \<^verbatim>\<open>None\<close>), which it turns into NaN.
\<close>

datatype cell = Numeric fnum | Unparseable

fun to_numeric :: "cell \<Rightarrow> fnum" where
  "to_numeric (Numeric x) = x"
| "to_numeric Unparseable = NaN"

section \<open>The index composer: \<^verbatim>\<open>calculate_cpi\<close>\<close>

datatype granularity = Month | Day

text \<open>
  The three query results, as lists of tuples in the order of the \<^verbatim>\<open>SELECT\<close>
  columns. The queries themselves run in the external store and are not modelled;
  what they return is the input of the model. \<open>'t\<close> is the type of a calendar date;
  a \<^verbatim>\<open>time_period\<close> is a date or null (\<open>None\<close>).
\<close>

record 't query_data =
  base_prices :: "(string \<times> cell) list"
  time_data :: "('t option \<times> string \<times> cell) list"
  weights :: "(string \<times> cell) list"

text \<open>A row of \<^verbatim>\<open>merged\<close> after the three \<^verbatim>\<open>pd.to_numeric\<close> assignments.\<close>

record 't joined_row =
  time_period :: "'t option"
  category_id :: string
  avg_price :: fnum
  base_price :: fnum
  weight :: fnum

text \<open>
  A row of the returned frame: columns \<^verbatim>\<open>time_period_<granularity>\<close>,
  \<^verbatim>\<open>cpi\<close> and \<^verbatim>\<open>cpi_index_<granularity>\<close>.
\<close>

record 't cpi_point =
  time_period_g :: 't
  cpi :: fnum
  cpi_index_g :: fnum

text \<open>The one \<^verbatim>\<open>logger.warning\<close> of the function, with the count it prints.\<close>

datatype log_event = InvalidBasePrices nat

text \<open>
  What a run raises. The second \<^verbatim>\<open>ValueError\<close> comes after the check of the base
  prices, so it carries the warnings logged before it.
\<close>

datatype error =
    EmptyJoin
      \<comment> \<open>\<^verbatim>\<open>ValueError\<close> of line 95: the merged frame is empty\<close>
  | EmptyResult "log_event list"
      \<comment> \<open>\<^verbatim>\<open>ValueError\<close> of line 114: the grouped frame is empty\<close>
  | IndexError
      \<comment> \<open>\<^verbatim>\<open>.values[0]\<close> on an empty selection\<close>

record 't cpi_output =
  gran :: granularity
  warnings :: "log_event list"
  points :: "'t cpi_point list"

text \<open>\<^verbatim>\<open>time_df.merge(base_df, on='category_id', how='inner')\<close>: every pair of a left
  and a right row with the same \<^verbatim>\<open>category_id\<close>, in the order of the left rows.\<close>

definition merge_base ::
  "('t \<times> string \<times> cell) list \<Rightarrow> (string \<times> cell) list \<Rightarrow> ('t \<times> string \<times> cell \<times> cell) list" where
  "merge_base time_df base_df =
     [(t, c, a, b). (t, c, a) \<leftarrow> time_df, (c', b) \<leftarrow> base_df, c' = c]"

text \<open>\<^verbatim>\<open>.merge(weight_df, on='category_id', how='inner')\<close>\<close>

definition merge_weight ::
  "('t \<times> string \<times> cell \<times> cell) list \<Rightarrow> (string \<times> cell) list
     \<Rightarrow> ('t \<times> string \<times> cell \<times> cell \<times> cell) list" where
  "merge_weight tb weight_df =
     [(t, c, a, b, w). (t, c, a, b) \<leftarrow> tb, (c', w) \<leftarrow> weight_df, c' = c]"

fun coerce :: "'t option \<times> string \<times> cell \<times> cell \<times> cell \<Rightarrow> 't joined_row" where
  "coerce (t, c, a, b, w) =
     \<lparr>time_period = t, category_id = c, avg_price = to_numeric a,
      base_price = to_numeric b, weight = to_numeric w\<rparr>"

definition merged_rows :: "'t query_data \<Rightarrow> 't joined_row list" where
  "merged_rows q =
     map coerce (merge_weight (merge_base (time_data q) (base_prices q)) (weights q))"

definition price_index :: "'t joined_row \<Rightarrow> fnum" where
  "price_index r = fmul (fdiv (avg_price r) (base_price r)) (Fin 100)"

definition weighted :: "'t joined_row \<Rightarrow> fnum" where
  "weighted r = fmul (price_index r) (weight r)"

definition total_weight :: "'t joined_row list \<Rightarrow> fnum" where
  "total_weight rows = nansum (map weight rows)"

definition total_weighted :: "'t joined_row list \<Rightarrow> fnum" where
  "total_weighted rows = nansum (map weighted rows)"

text \<open>
  \<^verbatim>\<open>merged.groupby('time_period').agg(...)\<close>, the division and
  \<^verbatim>\<open>reset_index()[['time_period', 'cpi']]\<close>: one row per distinct
  \<^verbatim>\<open>time_period\<close> that is not null, in ascending order. Rows with a null
  \<^verbatim>\<open>time_period\<close> belong to no group (\<^verbatim>\<open>groupby\<close> drops null keys).
\<close>

definition group_keys :: "('t::linorder) joined_row list \<Rightarrow> 't list" where
  "group_keys merged = sort (remdups [t. Some t \<leftarrow> map time_period merged])"

definition bucket :: "'t \<Rightarrow> 't joined_row list \<Rightarrow> 't joined_row list" where
  "bucket k merged = filter (\<lambda>r. time_period r = Some k) merged"

definition bucket_cpi :: "'t joined_row list \<Rightarrow> fnum" where
  "bucket_cpi rows = fdiv (total_weighted rows) (total_weight rows)"

definition groupby_cpi :: "('t::linorder) joined_row list \<Rightarrow> ('t \<times> fnum) list" where
  "groupby_cpi merged = map (\<lambda>k. (k, bucket_cpi (bucket k merged))) (group_keys merged)"

text \<open>\<^verbatim>\<open>cpi_result.loc[cpi_result['time_period'] == base_date, 'cpi'].values[0]\<close>\<close>

definition select_base_cpi :: "'t \<Rightarrow> ('t \<times> fnum) list \<Rightarrow> error + fnum" where
  "select_base_cpi base_date cpi_result =
     (case filter (\<lambda>(t, c). t = base_date) cpi_result of
        [] \<Rightarrow> Inl IndexError
      | (t, c) # _ \<Rightarrow> Inr c)"

definition rebase :: "fnum \<Rightarrow> 't \<times> fnum \<Rightarrow> 't cpi_point" where
  "rebase base_cpi = (\<lambda>(t, c).
     \<lparr>time_period_g = t, cpi = c, cpi_index_g = fmul (fdiv c base_cpi) (Fin 100)\<rparr>)"

definition base_price_warning :: "'t joined_row list \<Rightarrow> log_event list" where
  "base_price_warning merged =
     (if \<exists>r \<in> set merged. isna (base_price r)
      then [InvalidBasePrices (length (filter (\<lambda>r. isna (base_price r)) merged))]
      else [])"

definition calculate_cpi :: "granularity \<Rightarrow> ('t::linorder) query_data \<Rightarrow> error + 't cpi_output" where
  "calculate_cpi granularity q =
     (let merged = merged_rows q in
      if merged = [] then Inl EmptyJoin
      else
        let log = base_price_warning merged;
            cpi_result = groupby_cpi merged
        in if length cpi_result = 0 then Inl (EmptyResult log)
           else
             let base_date = min_list (map fst cpi_result) in
             case select_base_cpi base_date cpi_result of
               Inl e \<Rightarrow> Inl e
             | Inr base_cpi \<Rightarrow>
                 Inr \<lparr>gran = granularity, warnings = log,
                      points = map (rebase base_cpi) cpi_result\<rparr>)"

section \<open>The series merger: \<^verbatim>\<open>save_combined_results\<close>\<close>

text \<open>
  A cell of a \<^verbatim>\<open>time_period\<close> column is the \<^verbatim>\<open>datetime.date\<close> the driver
  returned (here its day number, counted from 1970-01-01) or, after
  \<^verbatim>\<open>pd.to_datetime\<close>, a timestamp in nanoseconds since 1970-01-01. The frames
  handed to the merger come from \<open>calculate_cpi\<close>, whose grouping drops null periods,
  so a cell is never \<^verbatim>\<open>NaT\<close>.
\<close>

datatype tcell = DateObj int | Timestamp int

definition ns_per_day :: int where
  "ns_per_day = 86400000000000"

fun ns :: "tcell \<Rightarrow> int" where
  "ns (DateObj d) = d * ns_per_day"
| "ns (Timestamp n) = n"

definition to_datetime :: "tcell \<Rightarrow> tcell" where
  "to_datetime c = Timestamp (ns c)"

text \<open>\<^verbatim>\<open>df['time_period_...'] = pd.to_datetime(df['time_period_...'])\<close>: the column
  is replaced in the caller's frame.\<close>

definition assign_datetime :: "tcell cpi_point list \<Rightarrow> tcell cpi_point list" where
  "assign_datetime df = map (\<lambda>r. r\<lparr>time_period_g := to_datetime (time_period_g r)\<rparr>) df"

text \<open>\<^verbatim>\<open>df.sort_values('time_period_...')\<close> returns a new frame, ascending in the
  period. Rows with equal periods keep their order here; pandas does not promise that,
  and the series of \<open>calculate_cpi\<close> have no equal periods.\<close>

definition sort_values :: "tcell cpi_point list \<Rightarrow> tcell cpi_point list" where
  "sort_values df = sort_key (\<lambda>r. ns (time_period_g r)) df"

text \<open>
  \<^verbatim>\<open>pd.merge_asof(left, right, ..., direction='nearest')\<close> on a right frame sorted
  by its key. For a left key \<open>k\<close> pandas looks up the last right row with key \<open>\<le> k\<close>
  (backward) and the first right row with key \<open>\<ge> k\<close> (forward), and takes the
  backward one unless the forward one is strictly closer. A left row with no right row
  at all keeps its own columns and gets nulls for the right ones (\<open>None\<close> here).
\<close>

definition asof_backward :: "int \<Rightarrow> tcell cpi_point list \<Rightarrow> tcell cpi_point option" where
  "asof_backward k right =
     (case filter (\<lambda>m. ns (time_period_g m) \<le> k) right of
        [] \<Rightarrow> None
      | b # bs \<Rightarrow> Some (last (b # bs)))"

definition asof_forward :: "int \<Rightarrow> tcell cpi_point list \<Rightarrow> tcell cpi_point option" where
  "asof_forward k right =
     (case filter (\<lambda>m. k \<le> ns (time_period_g m)) right of
        [] \<Rightarrow> None
      | f # fs \<Rightarrow> Some f)"

definition asof_nearest :: "int \<Rightarrow> tcell cpi_point list \<Rightarrow> tcell cpi_point option" where
  "asof_nearest k right =
     (case (asof_backward k right, asof_forward k right) of
        (Some b, Some f) \<Rightarrow>
          if k - ns (time_period_g b) \<le> ns (time_period_g f) - k then Some b else Some f
      | (Some b, None) \<Rightarrow> Some b
      | (None, fo) \<Rightarrow> fo)"

text \<open>A row of \<^verbatim>\<open>combined\<close>: the daily columns and the attached monthly columns.\<close>

record combined_point =
  day_part :: "tcell cpi_point"
  month_part :: "tcell cpi_point option"

definition merge_asof :: "tcell cpi_point list \<Rightarrow> tcell cpi_point list \<Rightarrow> combined_point list" where
  "merge_asof left right =
     map (\<lambda>d. \<lparr>day_part = d, month_part = asof_nearest (ns (time_period_g d)) right\<rparr>) left"

text \<open>
  What a call leaves behind: the two frames of the caller after the column
  assignments, and the rows written to \<^verbatim>\<open>combined_cpi_results.csv\<close>. Creating the
  directory and writing the file are outside the model.
\<close>

record merger_effect =
  monthly_after :: "tcell cpi_point list"
  daily_after :: "tcell cpi_point list"
  csv_rows :: "combined_point list"

definition save_combined_results ::
  "tcell cpi_point list \<Rightarrow> tcell cpi_point list \<Rightarrow> merger_effect" where
  "save_combined_results monthly_data daily_data =
     (let daily_data' = assign_datetime daily_data;
          monthly_data' = assign_datetime monthly_data;
          combined = merge_asof (sort_values daily_data') (sort_values monthly_data')
      in \<lparr>monthly_after = monthly_data', daily_after = daily_data', csv_rows = combined\<rparr>)"

section \<open>Notions used to state the properties\<close>

text \<open>\<open>|x - 100| \<le> 1e-9\<close>, false for an infinity and for NaN.\<close>

definition near_100 :: "fnum \<Rightarrow> bool" where
  "near_100 x = (case x of Fin r \<Rightarrow> \<bar>r - 100\<bar> \<le> 1 / 10 ^ 9 | _ \<Rightarrow> False)"

text \<open>The two merges in one.\<close>

definition join3 ::
  "('t \<times> string \<times> cell) list \<Rightarrow> (string \<times> cell) list \<Rightarrow> (string \<times> cell) list
     \<Rightarrow> ('t \<times> string \<times> cell \<times> cell \<times> cell) list" where
  "join3 time_df base_df weight_df = merge_weight (merge_base time_df base_df) weight_df"

text \<open>The categories that occur in all three query results.\<close>

definition matched_categories :: "'t query_data \<Rightarrow> string set" where
  "matched_categories q =
     (\<lambda>(t, c, a). c) ` set (time_data q) \<inter> fst ` set (base_prices q) \<inter> fst ` set (weights q)"

text \<open>The query results without the rows of every other category.\<close>

definition drop_unmatched :: "'t query_data \<Rightarrow> 't query_data" where
  "drop_unmatched q =
     \<lparr>base_prices = filter (\<lambda>(c, b). c \<in> matched_categories q) (base_prices q),
      time_data = filter (\<lambda>(t, c, a). c \<in> matched_categories q) (time_data q),
      weights = filter (\<lambda>(c, w). c \<in> matched_categories q) (weights q)\<rparr>"

text \<open>A row of a series with its period converted by \<^verbatim>\<open>pd.to_datetime\<close>.\<close>

definition with_datetime :: "tcell cpi_point \<Rightarrow> tcell cpi_point" where
  "with_datetime r = r\<lparr>time_period_g := to_datetime (time_period_g r)\<rparr>"

section \<open>Inputs used in the examples\<close>

text \<open>Base prices A: 10, B: 20; weights A: 0.6, B: 0.4; one bucket with A: 12, B: 22.\<close>

definition q_example :: "int query_data" where
  "q_example =
     \<lparr>base_prices = [(''A'', Numeric (Fin 10)), (''B'', Numeric (Fin 20))],
      time_data = [(Some 1, ''A'', Numeric (Fin 12)), (Some 1, ''B'', Numeric (Fin 22))],
      weights = [(''A'', Numeric (Fin (6 / 10))), (''B'', Numeric (Fin (4 / 10)))]\<rparr>"

text \<open>The only category has a base price that does not read as a number.\<close>

definition q_null_base :: "int query_data" where
  "q_null_base =
     \<lparr>base_prices = [(''A'', Unparseable)],
      time_data = [(Some 1, ''A'', Numeric (Fin 12))],
      weights = [(''A'', Numeric (Fin 1))]\<rparr>"

text \<open>Base prices know only category C, period prices only category D.\<close>

definition q_disjoint :: "int query_data" where
  "q_disjoint =
     \<lparr>base_prices = [(''C'', Numeric (Fin 10))],
      time_data = [(Some 1, ''D'', Numeric (Fin 12))],
      weights = [(''C'', Numeric (Fin 1)), (''D'', Numeric (Fin 1))]\<rparr>"

text \<open>The only category has base price zero.\<close>

definition q_zero_base :: "int query_data" where
  "q_zero_base =
     \<lparr>base_prices = [(''A'', Numeric (Fin 0))],
      time_data = [(Some 1, ''A'', Numeric (Fin 12))],
      weights = [(''A'', Numeric (Fin 1))]\<rparr>"

text \<open>As \<open>q_example\<close>, with the base price of A unreadable.\<close>

definition q_null_base_of_two :: "int query_data" where
  "q_null_base_of_two =
     \<lparr>base_prices = [(''A'', Unparseable), (''B'', Numeric (Fin 20))],
      time_data = [(Some 1, ''A'', Numeric (Fin 12)), (Some 1, ''B'', Numeric (Fin 22))],
      weights = [(''A'', Numeric (Fin (6 / 10))), (''B'', Numeric (Fin (4 / 10)))]\<rparr>"

text \<open>The only period price has a null period and a null base price.\<close>

definition q_null_period :: "int query_data" where
  "q_null_period =
     \<lparr>base_prices = [(''A'', Unparseable)],
      time_data = [(None, ''A'', Numeric (Fin 12))],
      weights = [(''A'', Numeric (Fin 1))]\<rparr>"

text \<open>As \<open>q_example\<close>, with the weight of A unreadable.\<close>

definition q_null_weight :: "int query_data" where
  "q_null_weight =
     \<lparr>base_prices = [(''A'', Numeric (Fin 10)), (''B'', Numeric (Fin 20))],
      time_data = [(Some 1, ''A'', Numeric (Fin 12)), (Some 1, ''B'', Numeric (Fin 22))],
      weights = [(''A'', Unparseable), (''B'', Numeric (Fin (4 / 10)))]\<rparr>"

text \<open>Two buckets; the only category of the first has weight zero.\<close>

definition q_zero_weight :: "int query_data" where
  "q_zero_weight =
     \<lparr>base_prices = [(''A'', Numeric (Fin 10)), (''B'', Numeric (Fin 20))],
      time_data = [(Some 1, ''A'', Numeric (Fin 12)), (Some 2, ''B'', Numeric (Fin 22))],
      weights = [(''A'', Numeric (Fin 0)), (''B'', Numeric (Fin (4 / 10)))]\<rparr>"

text \<open>Category A is in all three results, C has no weight and no price in bucket 1,
  D has no base price, E has a weight only.\<close>

definition q_unmatched :: "int query_data" where
  "q_unmatched =
     \<lparr>base_prices = [(''A'', Numeric (Fin 10)), (''C'', Numeric (Fin 5))],
      time_data = [(Some 1, ''A'', Numeric (Fin 12)), (Some 1, ''D'', Numeric (Fin 7)),
                   (Some 2, ''C'', Numeric (Fin 9))],
      weights = [(''A'', Numeric (Fin 1)), (''D'', Numeric (Fin 2)), (''E'', Numeric (Fin 3))]\<rparr>"

definition row_A :: "cell \<Rightarrow> cell \<Rightarrow> int joined_row" where
  "row_A b w = coerce (Some 1, ''A'', Numeric (Fin 12), b, w)"

definition row_B :: "int joined_row" where
  "row_B = coerce (Some 1, ''B'', Numeric (Fin 22), Numeric (Fin 20), Numeric (Fin (4 / 10)))"

text \<open>A row of a series handed to the merger.\<close>

definition point :: "tcell \<Rightarrow> real \<Rightarrow> tcell cpi_point" where
  "point t x = \<lparr>time_period_g = t, cpi = Fin x, cpi_index_g = Fin x\<rparr>"

text \<open>2025-01-01, 2025-01-15 and 2025-02-01 are days 20089, 20103 and 20120.\<close>

definition monthly_2025 :: "tcell cpi_point list" where
  "monthly_2025 = [point (DateObj 20089) 100, point (DateObj 20120) 101]"

definition daily_2025 :: "tcell cpi_point list" where
  "daily_2025 = [point (DateObj 20103) 102]"

text \<open>2025-01-30 is day 20118, two days before 2025-02-01.\<close>

definition daily_late_2025 :: "tcell cpi_point list" where
  "daily_late_2025 = [point (DateObj 20118) 104, point (DateObj 20103) 102]"

definition daily_three :: "tcell cpi_point list" where
  "daily_three = [point (DateObj 3) 103, point (DateObj 1) 101, point (DateObj 2) 102]"

section \<open>Properties of the index composer\<close>

lemmas run_defs = calculate_cpi_def merged_rows_def merge_base_def merge_weight_def
  groupby_cpi_def group_keys_def bucket_def bucket_cpi_def total_weight_def
  total_weighted_def nansum_def weighted_def price_index_def isna_def select_base_cpi_def
  rebase_def base_price_warning_def Let_def

lemmas join_defs = merged_rows_def merge_base_def merge_weight_def

lemmas sum_defs = bucket_def total_weight_def total_weighted_def nansum_def weighted_def
  price_index_def isna_def

subsection \<open>Grouping and the base bucket\<close>

lemma group_keys_set: "set (group_keys merged) = {t. Some t \<in> time_period ` set merged}"
  by (auto simp: group_keys_def split: option.splits)

lemma group_keys_Nil_iff:
  "group_keys merged = [] \<longleftrightarrow> (\<forall>r \<in> set merged. time_period r = None)"
proof -
  have "group_keys merged = [] \<longleftrightarrow> set (group_keys merged) = {}" by simp
  also have "\<dots> \<longleftrightarrow> (\<forall>r \<in> set merged. time_period r = None)"
    unfolding group_keys_set by (auto simp: image_iff) (metis option.exhaust)
  finally show ?thesis .
qed

lemma group_keys_distinct: "distinct (group_keys merged)"
  by (simp add: group_keys_def)

lemma groupby_cpi_keys: "map fst (groupby_cpi merged) = group_keys merged"
  by (simp add: groupby_cpi_def comp_def)

lemma groupby_cpi_Nil_iff: "groupby_cpi merged = [] \<longleftrightarrow> group_keys merged = []"
  by (simp add: groupby_cpi_def)

lemma select_base_cpi_present:
  "(t, c) \<in> set cr \<Longrightarrow> distinct (map fst cr) \<Longrightarrow> select_base_cpi t cr = Inr c"
proof (induction cr)
  case Nil
  then show ?case by simp
next
  case (Cons x xs)
  obtain t' c' where x: "x = (t', c')" by (cases x)
  show ?case
  proof (cases "t' = t")
    case True
    with Cons.prems x have "c' = c" by (auto simp: image_iff)
    with True x show ?thesis by (simp add: select_base_cpi_def)
  next
    case False
    with Cons x have "select_base_cpi t xs = Inr c" by auto
    with False x show ?thesis by (simp add: select_base_cpi_def)
  qed
qed

lemma min_list_in: "(xs :: ('a::linorder) list) \<noteq> [] \<Longrightarrow> min_list xs \<in> set xs"
  by (simp add: min_list_Min)

lemma select_base_cpi_min:
  fixes cr :: "('t::linorder \<times> fnum) list"
  assumes "cr \<noteq> []" "distinct (map fst cr)"
  shows "\<exists>c. (min_list (map fst cr), c) \<in> set cr \<and>
             select_base_cpi (min_list (map fst cr)) cr = Inr c"
proof -
  from assms(1) have "map fst cr \<noteq> []" by simp
  then have "min_list (map fst cr) \<in> set (map fst cr)"
    by (rule min_list_in)
  then obtain c where "(min_list (map fst cr), c) \<in> set cr" by auto
  with assms(2) show ?thesis by (blast intro: select_base_cpi_present)
qed

text \<open>The three outcomes of a run: an empty join raises, a join without any period
  raises after the check of the base prices, anything else returns.\<close>

lemma calculate_cpi_empty: "merged_rows q = [] \<Longrightarrow> calculate_cpi g q = Inl EmptyJoin"
  by (simp add: calculate_cpi_def)

lemma calculate_cpi_no_period:
  assumes "merged_rows q \<noteq> []" and "group_keys (merged_rows q) = []"
  shows "calculate_cpi g q = Inl (EmptyResult (base_price_warning (merged_rows q)))"
  using assms by (simp add: calculate_cpi_def Let_def groupby_cpi_Nil_iff)

lemma calculate_cpi_nonempty:
  assumes "group_keys (merged_rows q) \<noteq> []"
  shows "\<exists>c. (min_list (group_keys (merged_rows q)), c) \<in> set (groupby_cpi (merged_rows q)) \<and>
     calculate_cpi g q =
       Inr \<lparr>gran = g, warnings = base_price_warning (merged_rows q),
            points = map (rebase c) (groupby_cpi (merged_rows q))\<rparr>"
proof -
  let ?cr = "groupby_cpi (merged_rows q)"
  have ne: "?cr \<noteq> []" using assms by (simp add: groupby_cpi_Nil_iff)
  from assms have mne: "merged_rows q \<noteq> []" by (auto simp: group_keys_def)
  have d: "distinct (map fst ?cr)" by (simp add: groupby_cpi_keys group_keys_distinct)
  from select_base_cpi_min [OF ne d] obtain c where
    c: "(min_list (map fst ?cr), c) \<in> set ?cr"
       "select_base_cpi (min_list (map fst ?cr)) ?cr = Inr c"
    by blast
  from c(1) have "(min_list (group_keys (merged_rows q)), c) \<in> set ?cr"
    by (simp add: groupby_cpi_keys)
  moreover from mne ne c(2) have "calculate_cpi g q =
       Inr \<lparr>gran = g, warnings = base_price_warning (merged_rows q),
            points = map (rebase c) ?cr\<rparr>"
    by (simp add: calculate_cpi_def Let_def)
  ultimately show ?thesis by blast
qed

lemma calculate_cpi_Inr_nonempty:
  "calculate_cpi g q = Inr out \<Longrightarrow> group_keys (merged_rows q) \<noteq> []"
  by (auto simp: calculate_cpi_def Let_def groupby_cpi_Nil_iff split: if_splits)

text \<open>Every returned row carries the quotient of its bucket and that quotient re-based.\<close>

lemma calculate_cpi_point:
  assumes "calculate_cpi g q = Inr out" and "p \<in> set (points out)"
  shows "\<exists>bc. cpi p = bucket_cpi (bucket (time_period_g p) (merged_rows q)) \<and>
              cpi_index_g p = fmul (fdiv (cpi p) bc) (Fin 100)"
proof -
  from assms(1) have "group_keys (merged_rows q) \<noteq> []" by (rule calculate_cpi_Inr_nonempty)
  from calculate_cpi_nonempty [OF this, of g] obtain bc where
    "calculate_cpi g q =
       Inr \<lparr>gran = g, warnings = base_price_warning (merged_rows q),
            points = map (rebase bc) (groupby_cpi (merged_rows q))\<rparr>" by blast
  with assms(1) have "points out = map (rebase bc) (groupby_cpi (merged_rows q))"
    by auto
  with assms(2) obtain k where "p = rebase bc (k, bucket_cpi (bucket k (merged_rows q)))"
    by (auto simp: groupby_cpi_def)
  then have "cpi p = bucket_cpi (bucket (time_period_g p) (merged_rows q)) \<and>
      cpi_index_g p = fmul (fdiv (cpi p) bc) (Fin 100)"
    by (simp add: rebase_def)
  then show ?thesis ..
qed

lemma rebase_self:
  "fmul (fdiv c c) (Fin 100) = (case c of Fin r \<Rightarrow> if r = 0 then NaN else Fin 100 | _ \<Rightarrow> NaN)"
  by (cases c) auto

subsection \<open>Null handling in the sums\<close>

lemma nansum_skip: "nansum (xs @ NaN # ys) = nansum (xs @ ys)"
  by (simp add: nansum_def isna_def)

lemma nansum_zero:
  assumes "\<forall>x \<in> set xs. x = NaN \<or> x = Fin 0"
  shows "nansum xs = Fin 0"
proof -
  have "foldl fadd (Fin 0) ys = Fin 0" if "\<forall>x \<in> set ys. x = Fin 0" for ys
    using that by (induction ys) simp_all
  moreover from assms have "\<forall>x \<in> set (filter (\<lambda>x. \<not> isna x) xs). x = Fin 0"
    by (auto simp: isna_def)
  ultimately show ?thesis by (simp add: nansum_def)
qed

lemma fmul_NaN_right: "fmul x NaN = NaN"
  by (cases x) simp_all

lemma fmul_zero_right: "fmul x (Fin 0) = NaN \<or> fmul x (Fin 0) = Fin 0"
  by (cases x) simp_all

lemma weighted_null_weight: "weight r = NaN \<Longrightarrow> weighted r = NaN"
  by (simp add: weighted_def fmul_NaN_right)

lemma weighted_null_or_zero_weight:
  "weight r = NaN \<or> weight r = Fin 0 \<Longrightarrow> weighted r = NaN \<or> weighted r = Fin 0"
  using fmul_zero_right [of "price_index r"] by (auto simp: weighted_def fmul_NaN_right)

lemma price_index_null_base: "base_price r = NaN \<Longrightarrow> price_index r = NaN"
  by (cases "avg_price r") (simp_all add: price_index_def)

lemma weighted_null_base: "base_price r = NaN \<Longrightarrow> weighted r = NaN"
  by (simp add: weighted_def price_index_null_base)

lemma total_weighted_skip:
  "weighted r = NaN \<Longrightarrow> total_weighted (xs @ r # ys) = total_weighted (xs @ ys)"
  using nansum_skip [of "map weighted xs" "map weighted ys"] by (simp add: total_weighted_def)

lemma total_weight_skip:
  "weight r = NaN \<Longrightarrow> total_weight (xs @ r # ys) = total_weight (xs @ ys)"
  using nansum_skip [of "map weight xs" "map weight ys"] by (simp add: total_weight_def)

lemma bucket_append: "bucket k (xs @ ys) = bucket k xs @ bucket k ys"
  by (simp add: bucket_def)

lemma bucket_Cons:
  "bucket k (r # ys) = (if time_period r = Some k then r # bucket k ys else bucket k ys)"
  by (simp add: bucket_def)

lemma bucket_total_weighted_skip:
  "weighted r = NaN \<Longrightarrow>
     total_weighted (bucket k (xs @ r # ys)) = total_weighted (bucket k (xs @ ys))"
  by (simp add: bucket_append bucket_Cons total_weighted_skip)

lemma bucket_total_weight_skip:
  "weight r = NaN \<Longrightarrow>
     total_weight (bucket k (xs @ r # ys)) = total_weight (bucket k (xs @ ys))"
  by (simp add: bucket_append bucket_Cons total_weight_skip)

lemma base_price_warning_skip:
  "base_price r \<noteq> NaN \<Longrightarrow> base_price_warning (xs @ r # ys) = base_price_warning (xs @ ys)"
  by (simp add: base_price_warning_def isna_def)

subsection \<open>The rebase anchor\<close>

text \<open>
  C1, as the code has it. In a returned series, the row at the minimum
  \<^verbatim>\<open>time_period\<close> has \<^verbatim>\<open>cpi_index\<close> exactly 100 when its \<^verbatim>\<open>cpi\<close> is a finite
  number other than zero. When that \<^verbatim>\<open>cpi\<close> is zero, an infinity or NaN, the
  division \<^verbatim>\<open>cpi / base_cpi\<close> gives NaN there.
\<close>

theorem rebase_anchor:
  fixes q :: "('t::linorder) query_data"
  assumes run: "calculate_cpi g q = Inr out"
    and p: "p \<in> set (points out)"
    and least: "\<forall>p' \<in> set (points out). time_period_g p \<le> time_period_g p'"
  shows "cpi_index_g p = (case cpi p of Fin r \<Rightarrow> if r = 0 then NaN else Fin 100 | _ \<Rightarrow> NaN)"
proof -
  let ?cr = "groupby_cpi (merged_rows q)"
  let ?m = "min_list (group_keys (merged_rows q))"
  from run have ne: "group_keys (merged_rows q) \<noteq> []" by (rule calculate_cpi_Inr_nonempty)
  from calculate_cpi_nonempty [OF ne, of g] run obtain bc where
    bc: "(?m, bc) \<in> set ?cr" and out: "points out = map (rebase bc) ?cr"
    by auto
  from p out obtain t c where tc: "(t, c) \<in> set ?cr" and p_eq: "p = rebase bc (t, c)"
    by auto
  have pm: "rebase bc (?m, bc) \<in> set (points out)" using bc out by force
  have "t \<le> ?m" using least p_eq pm by (auto simp: rebase_def)
  moreover have "?m \<le> t"
  proof -
    from tc have "t \<in> set (group_keys (merged_rows q))"
      by (metis groupby_cpi_keys image_eqI fst_conv set_map)
    then show ?thesis by (metis min_list_Min Min_le List.finite_set empty_iff empty_set)
  qed
  ultimately have "t = ?m" by simp
  moreover have "distinct (map fst ?cr)" by (simp add: groupby_cpi_keys group_keys_distinct)
  ultimately have "c = bc" using tc bc by (metis eq_key_imp_eq_value)
  with p_eq have "cpi p = bc" "cpi_index_g p = fmul (fdiv bc bc) (Fin 100)"
    by (simp_all add: rebase_def)
  then show ?thesis by (simp add: rebase_self)
qed

text \<open>The example of the specification: \<^verbatim>\<open>cpi\<close> 116, re-based to 100.\<close>

theorem rebase_anchor_witness:
  "calculate_cpi Month q_example =
     Inr \<lparr>gran = Month, warnings = [],
          points = [\<lparr>time_period_g = 1, cpi = Fin 116, cpi_index_g = Fin 100\<rparr>]\<rparr>
   \<and> cpi_index_g \<lparr>time_period_g = 1::int, cpi = Fin 116, cpi_index_g = Fin 100\<rparr> = Fin 100
   \<and> near_100 (Fin 100)"
proof -
  let ?p = "\<lparr>time_period_g = 1::int, cpi = Fin 116, cpi_index_g = Fin 100\<rparr>"
  let ?out = "\<lparr>gran = Month, warnings = [], points = [?p]\<rparr>"
  have run: "calculate_cpi Month q_example = Inr ?out"
    by (simp add: q_example_def run_defs)
  have p: "?p \<in> set (points ?out)" by simp
  have least: "\<forall>p' \<in> set (points ?out). time_period_g ?p \<le> time_period_g p'" by simp
  from rebase_anchor [OF run p least] run show ?thesis by (simp add: near_100_def)
qed

text \<open>
  C1 as stated fails: with the weight of the only category unreadable, the bucket has
  \<^verbatim>\<open>total_weight\<close> 0 and \<^verbatim>\<open>total_weighted\<close> 0, its \<^verbatim>\<open>cpi\<close> is NaN, and the
  series is returned with \<^verbatim>\<open>cpi_index\<close> NaN at its only, hence minimum, period.
\<close>

theorem rebase_anchor_counterexample:
  "calculate_cpi Month
     \<lparr>base_prices = [(''A'', Numeric (Fin 10))],
      time_data = [(Some (1::int), ''A'', Numeric (Fin 12))],
      weights = [(''A'', Unparseable)]\<rparr>
   = Inr \<lparr>gran = Month, warnings = [],
          points = [\<lparr>time_period_g = 1, cpi = NaN, cpi_index_g = NaN\<rparr>]\<rparr>
   \<and> \<not> near_100 NaN"
  by (simp add: run_defs near_100_def)

subsection \<open>Empty join and null base prices\<close>

text \<open>
  C2, as the code has it. A join with zero rows raises the \<^verbatim>\<open>ValueError\<close> for an
  empty merge. A join with at least one row does not: when some joined
  \<^verbatim>\<open>base_price\<close> is null the run only logs one warning carrying the number of such
  rows, and goes on. It then returns a series, unless every joined row has a null
  period, in which case it raises the \<^verbatim>\<open>ValueError\<close> for an empty result.
\<close>

theorem empty_join_or_warning:
  fixes q :: "('t::linorder) query_data"
  shows "(merged_rows q = [] \<longrightarrow> calculate_cpi g q = Inl EmptyJoin) \<and>
   (merged_rows q \<noteq> [] \<longrightarrow>
      (let logged =
          (if \<exists>r \<in> set (merged_rows q). base_price r = NaN
           then [InvalidBasePrices (length (filter (\<lambda>r. base_price r = NaN) (merged_rows q)))]
           else [])
       in if \<forall>r \<in> set (merged_rows q). time_period r = None
          then calculate_cpi g q = Inl (EmptyResult logged)
          else \<exists>out. calculate_cpi g q = Inr out \<and> warnings out = logged))"
proof (intro conjI impI)
  assume "merged_rows q = []"
  then show "calculate_cpi g q = Inl EmptyJoin" by (rule calculate_cpi_empty)
next
  assume ne: "merged_rows q \<noteq> []"
  have w: "base_price_warning (merged_rows q) =
          (if \<exists>r \<in> set (merged_rows q). base_price r = NaN
           then [InvalidBasePrices (length (filter (\<lambda>r. base_price r = NaN) (merged_rows q)))]
           else [])"
    by (simp add: base_price_warning_def isna_def)
  show "let logged =
          (if \<exists>r \<in> set (merged_rows q). base_price r = NaN
           then [InvalidBasePrices (length (filter (\<lambda>r. base_price r = NaN) (merged_rows q)))]
           else [])
       in if \<forall>r \<in> set (merged_rows q). time_period r = None
          then calculate_cpi g q = Inl (EmptyResult logged)
          else \<exists>out. calculate_cpi g q = Inr out \<and> warnings out = logged"
  proof (cases "\<forall>r \<in> set (merged_rows q). time_period r = None")
    case True
    then have "group_keys (merged_rows q) = []" by (simp add: group_keys_Nil_iff)
    from calculate_cpi_no_period [OF ne this, of g] True show ?thesis
      by (simp add: Let_def w)
  next
    case False
    then have "group_keys (merged_rows q) \<noteq> []" by (simp add: group_keys_Nil_iff)
    from calculate_cpi_nonempty [OF this, of g] obtain c where
      "calculate_cpi g q = Inr \<lparr>gran = g, warnings = base_price_warning (merged_rows q),
          points = map (rebase c) (groupby_cpi (merged_rows q))\<rparr>" by blast
    with False show ?thesis by (simp add: Let_def w)
  qed
qed

text \<open>An empty join; a null base price with a period; a null base price without one.\<close>

theorem empty_join_or_warning_witness:
  "merged_rows q_disjoint = [] \<and> calculate_cpi Day q_disjoint = Inl EmptyJoin \<and>
   merged_rows q_null_base \<noteq> [] \<and>
   (\<exists>out. calculate_cpi Month q_null_base = Inr out \<and> warnings out = [InvalidBasePrices 1]) \<and>
   merged_rows q_null_period \<noteq> [] \<and>
   calculate_cpi Month q_null_period = Inl (EmptyResult [InvalidBasePrices 1])"
proof -
  have e: "merged_rows q_disjoint = []"
    by (simp add: q_disjoint_def join_defs)
  have n: "merged_rows q_null_base =
     [\<lparr>time_period = Some 1, category_id = ''A'', avg_price = Fin 12, base_price = NaN,
       weight = Fin 1\<rparr>]"
    by (simp add: q_null_base_def join_defs)
  have u: "merged_rows q_null_period =
     [\<lparr>time_period = None, category_id = ''A'', avg_price = Fin 12, base_price = NaN,
       weight = Fin 1\<rparr>]"
    by (simp add: q_null_period_def join_defs)
  from empty_join_or_warning [of q_disjoint Day] e
  have "calculate_cpi Day q_disjoint = Inl EmptyJoin" by simp
  moreover from empty_join_or_warning [of q_null_base Month] n
  have "\<exists>out. calculate_cpi Month q_null_base = Inr out \<and> warnings out = [InvalidBasePrices 1]"
    by simp
  moreover from empty_join_or_warning [of q_null_period Month] u
  have "calculate_cpi Month q_null_period = Inl (EmptyResult [InvalidBasePrices 1])"
    by simp
  ultimately show ?thesis using e n u by simp
qed

text \<open>
  C2 as stated fails in its second half: the joined row has a null \<^verbatim>\<open>base_price\<close>,
  and the run returns a series (with \<^verbatim>\<open>cpi\<close> 0) instead of failing.
\<close>

theorem empty_join_or_warning_counterexample:
  "merged_rows q_null_base =
     [\<lparr>time_period = Some 1, category_id = ''A'', avg_price = Fin 12, base_price = NaN,
       weight = Fin 1\<rparr>]
   \<and> calculate_cpi Month q_null_base =
     Inr \<lparr>gran = Month, warnings = [InvalidBasePrices 1],
          points = [\<lparr>time_period_g = 1, cpi = Fin 0, cpi_index_g = NaN\<rparr>]\<rparr>"
  by (simp add: q_null_base_def run_defs)

subsection \<open>Price relatives with a missing or zero base price\<close>

text \<open>
  C3, as the code has it. For a joined row whose \<^verbatim>\<open>base_price\<close> is missing (null),
  \<^verbatim>\<open>price_index\<close> and \<^verbatim>\<open>weighted\<close> are null and the row adds nothing to
  \<^verbatim>\<open>total_weighted\<close> of any bucket: the sum is what it is without the row.
\<close>

theorem null_base_price_excluded:
  assumes "base_price r = NaN"
  shows "price_index r = NaN \<and> weighted r = NaN \<and>
         total_weighted (bucket k (xs @ r # ys)) = total_weighted (bucket k (xs @ ys))"
  using assms
  by (simp add: price_index_null_base weighted_null_base bucket_total_weighted_skip)

text \<open>The row of A is left out of \<^verbatim>\<open>total_weighted\<close>; its weight 0.6 still counts
  in \<^verbatim>\<open>total_weight\<close>.\<close>

theorem null_base_price_excluded_witness:
  "merged_rows q_null_base_of_two = [] @ row_A Unparseable (Numeric (Fin (6 / 10))) # [row_B] \<and>
   base_price (row_A Unparseable (Numeric (Fin (6 / 10)))) = NaN \<and>
   price_index (row_A Unparseable (Numeric (Fin (6 / 10)))) = NaN \<and>
   total_weighted (bucket 1 (merged_rows q_null_base_of_two)) = Fin 44 \<and>
   total_weighted (bucket 1 ([] @ [row_B])) = Fin 44 \<and>
   total_weight (bucket 1 (merged_rows q_null_base_of_two)) = Fin 1"
proof -
  let ?r = "row_A Unparseable (Numeric (Fin (6 / 10)))"
  have m: "merged_rows q_null_base_of_two = [] @ ?r # [row_B]"
    by (simp add: q_null_base_of_two_def row_A_def row_B_def join_defs)
  have h: "base_price ?r = NaN" by (simp add: row_A_def)
  have v: "total_weighted (bucket 1 ([] @ [row_B])) = Fin 44"
    by (simp add: row_B_def sum_defs)
  have w: "total_weight (bucket 1 ([] @ ?r # [row_B])) = Fin 1"
    by (simp add: row_A_def row_B_def sum_defs)
  from null_base_price_excluded [OF h, of 1 "[]" "[row_B]"] m h v w show ?thesis by simp
qed

text \<open>
  C3 as stated fails for a base price of zero: \<^verbatim>\<open>12 / 0 * 100\<close> is \<open>+\<infinity>\<close>, which
  goes into \<^verbatim>\<open>total_weighted\<close> and comes out as the \<^verbatim>\<open>cpi\<close> of the bucket.
\<close>

theorem null_base_price_excluded_counterexample:
  "map price_index (merged_rows q_zero_base) = [PInf] \<and>
   total_weighted (merged_rows q_zero_base) = PInf \<and>
   calculate_cpi Month q_zero_base =
     Inr \<lparr>gran = Month, warnings = [],
          points = [\<lparr>time_period_g = 1, cpi = PInf, cpi_index_g = NaN\<rparr>]\<rparr>"
  by (simp add: q_zero_base_def run_defs)

subsection \<open>Unparseable weights\<close>

text \<open>
  A joined row whose weight cannot be read adds nothing to \<^verbatim>\<open>total_weight\<close> nor to
  \<^verbatim>\<open>total_weighted\<close> of any bucket, and, unless its base price is null as well,
  nothing to the warning either.
\<close>

lemma unparseable_weight_sums:
  assumes r: "r = coerce (t, c, a, b, Unparseable)"
  shows "total_weight (bucket k (xs @ r # ys)) = total_weight (bucket k (xs @ ys)) \<and>
         total_weighted (bucket k (xs @ r # ys)) = total_weighted (bucket k (xs @ ys)) \<and>
         (to_numeric b \<noteq> NaN \<longrightarrow>
            base_price_warning (xs @ r # ys) = base_price_warning (xs @ ys))"
proof -
  from r have w: "weight r = NaN" by simp
  from r have b: "base_price r = to_numeric b" by simp
  show ?thesis
    using bucket_total_weight_skip [OF w, of k xs ys]
      bucket_total_weighted_skip [OF weighted_null_weight [OF w], of k xs ys]
      base_price_warning_skip [of r xs ys] b
    by simp
qed

text \<open>
  C4, on the code. The weight of A cannot be read: the row of A is left out of both
  sums of its bucket (\<^verbatim>\<open>total_weight\<close> 0.4, \<^verbatim>\<open>total_weighted\<close> 44), and the run
  returns without any warning, so nothing counts the row. The same run with the base
  price of A unreadable instead logs the warning with its count of 1.
\<close>

theorem unparseable_weight_not_counted:
  "map weight (merged_rows q_null_weight) = [NaN, Fin (4 / 10)] \<and>
   total_weight (bucket 1 (merged_rows q_null_weight)) = Fin (4 / 10) \<and>
   total_weighted (bucket 1 (merged_rows q_null_weight)) = Fin 44 \<and>
   calculate_cpi Day q_null_weight =
     Inr \<lparr>gran = Day, warnings = [],
          points = [\<lparr>time_period_g = 1, cpi = Fin 110, cpi_index_g = Fin 100\<rparr>]\<rparr> \<and>
   calculate_cpi Day q_null_base_of_two =
     Inr \<lparr>gran = Day, warnings = [InvalidBasePrices 1],
          points = [\<lparr>time_period_g = 1, cpi = Fin 44, cpi_index_g = Fin 100\<rparr>]\<rparr>"
  by (simp add: q_null_weight_def q_null_base_of_two_def run_defs)

subsection \<open>Buckets of total weight zero\<close>

text \<open>
  C5, as the code has it. When every joined row of a bucket has a null or zero weight,
  \<^verbatim>\<open>total_weight\<close> is 0 and the division is carried out all the same: the returned
  row of that bucket has \<^verbatim>\<open>cpi\<close> NaN, never 0 or another number, and
  \<^verbatim>\<open>cpi_index\<close> NaN.
\<close>

theorem zero_weight_bucket_nan:
  fixes q :: "('t::linorder) query_data"
  assumes run: "calculate_cpi g q = Inr out"
    and p: "p \<in> set (points out)"
    and z: "\<forall>r \<in> set (bucket (time_period_g p) (merged_rows q)). weight r = NaN \<or> weight r = Fin 0"
  shows "total_weight (bucket (time_period_g p) (merged_rows q)) = Fin 0 \<and>
         cpi p = NaN \<and> cpi_index_g p = NaN"
proof -
  let ?rows = "bucket (time_period_g p) (merged_rows q)"
  from z have tw: "total_weight ?rows = Fin 0"
    by (simp add: total_weight_def nansum_zero)
  from z have "\<forall>x \<in> set (map weighted ?rows). x = NaN \<or> x = Fin 0"
    using weighted_null_or_zero_weight by fastforce
  then have twd: "total_weighted ?rows = Fin 0"
    unfolding total_weighted_def by (rule nansum_zero)
  from tw twd have "bucket_cpi ?rows = NaN" by (simp add: bucket_cpi_def)
  with calculate_cpi_point [OF run p] have "cpi p = NaN \<and> cpi_index_g p = NaN"
    by auto
  with tw show ?thesis by simp
qed

theorem zero_weight_bucket_nan_witness:
  "calculate_cpi Day q_zero_weight =
     Inr \<lparr>gran = Day, warnings = [],
          points = [\<lparr>time_period_g = 1, cpi = NaN, cpi_index_g = NaN\<rparr>,
                    \<lparr>time_period_g = 2, cpi = Fin 110, cpi_index_g = NaN\<rparr>]\<rparr> \<and>
   map weight (bucket 1 (merged_rows q_zero_weight)) = [Fin 0] \<and>
   total_weight (bucket 1 (merged_rows q_zero_weight)) = Fin 0"
proof -
  let ?p = "\<lparr>time_period_g = 1::int, cpi = NaN, cpi_index_g = NaN\<rparr>"
  let ?out = "\<lparr>gran = Day, warnings = [],
          points = [?p, \<lparr>time_period_g = 2, cpi = Fin 110, cpi_index_g = NaN\<rparr>]\<rparr>"
  have run: "calculate_cpi Day q_zero_weight = Inr ?out"
    by (simp add: q_zero_weight_def run_defs)
  have p: "?p \<in> set (points ?out)" by simp
  have b: "bucket (time_period_g ?p) (merged_rows q_zero_weight) =
     [\<lparr>time_period = Some 1, category_id = ''A'', avg_price = Fin 12, base_price = Fin 10,
       weight = Fin 0\<rparr>]"
    by (simp add: q_zero_weight_def bucket_def join_defs)
  then have z: "\<forall>r \<in> set (bucket (time_period_g ?p) (merged_rows q_zero_weight)).
      weight r = NaN \<or> weight r = Fin 0"
    by simp
  from zero_weight_bucket_nan [OF run p z] run b show ?thesis by simp
qed

text \<open>
  C5 as stated fails: the first bucket has total weight 0, and the run returns as any
  other, without a warning; the quotient \<open>0 / 0\<close> is the \<^verbatim>\<open>cpi\<close> of the bucket and,
  as the base of the series, turns every \<^verbatim>\<open>cpi_index\<close> into NaN.
\<close>

theorem zero_weight_bucket_nan_counterexample:
  "total_weight (bucket 1 (merged_rows q_zero_weight)) = Fin 0 \<and>
   total_weighted (bucket 1 (merged_rows q_zero_weight)) = Fin 0 \<and>
   bucket_cpi (bucket 1 (merged_rows q_zero_weight)) = fdiv (Fin 0) (Fin 0) \<and>
   calculate_cpi Day q_zero_weight =
     Inr \<lparr>gran = Day, warnings = [],
          points = [\<lparr>time_period_g = 1, cpi = NaN, cpi_index_g = NaN\<rparr>,
                    \<lparr>time_period_g = 2, cpi = Fin 110, cpi_index_g = NaN\<rparr>]\<rparr>"
  by (simp add: q_zero_weight_def run_defs)

subsection \<open>Inner-join semantics\<close>

lemma merge_weight_append:
  "merge_weight (xs @ ys) w = merge_weight xs w @ merge_weight ys w"
  by (simp add: merge_weight_def)

lemma join3_Nil: "join3 [] base_df weight_df = []"
  by (simp add: join3_def merge_base_def merge_weight_def)

lemma join3_Cons:
  "join3 (x # time_df) base_df weight_df =
     join3 [x] base_df weight_df @ join3 time_df base_df weight_df"
  by (simp add: join3_def merge_base_def merge_weight_append)

text \<open>The rows one period price gives: one per pair of a base price and a weight of
  its category.\<close>

lemma join3_single:
  "join3 [(t, c, a)] base_df weight_df =
     concat (map (\<lambda>b. map (\<lambda>w. (t, c, a, snd b, snd w)) (filter (\<lambda>w. fst w = c) weight_df))
                 (filter (\<lambda>b. fst b = c) base_df))"
proof -
  have "merge_weight (map (\<lambda>b. (t, c, a, snd b)) bs) weight_df =
     concat (map (\<lambda>b. map (\<lambda>w. (t, c, a, snd b, snd w)) (filter (\<lambda>w. fst w = c) weight_df)) bs)"
    for bs :: "(string \<times> cell) list"
  proof (induction bs)
    case Nil
    show ?case by (simp add: merge_weight_def)
  next
    case (Cons b bs)
    have "merge_weight [(t, c, a, snd b)] weight_df
        = map (\<lambda>w. (t, c, a, snd b, snd w)) (filter (\<lambda>w. fst w = c) weight_df)"
      by (induction weight_df) (auto simp: merge_weight_def)
    with Cons show ?case
      using merge_weight_append [of "[(t, c, a, snd b)]" "map (\<lambda>b. (t, c, a, snd b)) bs" weight_df]
      by simp
  qed
  moreover have "merge_base [(t, c, a)] base_df =
      map (\<lambda>b. (t, c, a, snd b)) (filter (\<lambda>b. fst b = c) base_df)"
    by (induction base_df) (auto simp: merge_base_def)
  ultimately show ?thesis by (simp add: join3_def)
qed

lemma join3_single_unmatched:
  "c \<notin> fst ` set base_df \<or> c \<notin> fst ` set weight_df \<Longrightarrow>
     join3 [(t, c, a)] base_df weight_df = []"
  by (auto simp: join3_single filter_empty_conv image_iff)

lemma filter_filter_key:
  "c \<in> K \<Longrightarrow>
     filter (\<lambda>x. fst x = c) (filter (\<lambda>(c', v). c' \<in> K) xs) = filter (\<lambda>x. fst x = c) xs"
  by (induction xs) auto

lemma join3_single_restrict:
  "c \<in> K \<Longrightarrow>
   join3 [(t, c, a)] (filter (\<lambda>(c', b). c' \<in> K) base_df) (filter (\<lambda>(c', w). c' \<in> K) weight_df)
     = join3 [(t, c, a)] base_df weight_df"
  by (simp only: join3_single filter_filter_key)

lemma join3_restrict:
  assumes "\<forall>(t, c, a) \<in> set time_df.
             c \<in> fst ` set base_df \<longrightarrow> c \<in> fst ` set weight_df \<longrightarrow> c \<in> K"
  shows "join3 (filter (\<lambda>(t, c, a). c \<in> K) time_df)
           (filter (\<lambda>(c, b). c \<in> K) base_df) (filter (\<lambda>(c, w). c \<in> K) weight_df)
         = join3 time_df base_df weight_df"
  using assms
proof (induction time_df)
  case Nil
  show ?case by (simp add: join3_Nil)
next
  case (Cons x xs)
  obtain t c a where x: "x = (t, c, a)" by (cases x)
  from Cons have IH: "join3 (filter (\<lambda>(t, c, a). c \<in> K) xs)
           (filter (\<lambda>(c, b). c \<in> K) base_df) (filter (\<lambda>(c, w). c \<in> K) weight_df)
         = join3 xs base_df weight_df" by simp
  show ?case
  proof (cases "c \<in> K")
    case True
    then show ?thesis
      using IH join3_single_restrict [OF True, of t a base_df weight_df]
        join3_Cons [of "(t, c, a)" xs base_df weight_df]
        join3_Cons [of "(t, c, a)" "filter (\<lambda>(t, c, a). c \<in> K) xs"
           "filter (\<lambda>(c, b). c \<in> K) base_df" "filter (\<lambda>(c, w). c \<in> K) weight_df"]
      by (simp add: x)
  next
    case False
    with Cons.prems x have "c \<notin> fst ` set base_df \<or> c \<notin> fst ` set weight_df" by auto
    from join3_single_unmatched [OF this, of t a] False IH show ?thesis
      using join3_Cons [of "(t, c, a)" xs base_df weight_df] by (simp add: x)
  qed
qed

lemma merged_rows_join3:
  "merged_rows q = map coerce (join3 (time_data q) (base_prices q) (weights q))"
  by (simp add: merged_rows_def join3_def)

lemma merged_rows_drop_unmatched: "merged_rows (drop_unmatched q) = merged_rows q"
proof -
  have "\<forall>(t, c, a) \<in> set (time_data q). c \<in> fst ` set (base_prices q) \<longrightarrow>
          c \<in> fst ` set (weights q) \<longrightarrow> c \<in> matched_categories q"
    by (force simp: matched_categories_def)
  from join3_restrict [OF this] show ?thesis
    by (simp add: merged_rows_join3 drop_unmatched_def)
qed

lemma join3_member:
  "(t, c, a, b, w) \<in> set (join3 time_df base_df weight_df) \<Longrightarrow>
     (t, c, a) \<in> set time_df \<and> (c, b) \<in> set base_df \<and> (c, w) \<in> set weight_df"
  by (auto simp: join3_def merge_base_def merge_weight_def)

lemma merged_rows_category:
  assumes "r \<in> set (merged_rows q)"
  shows "category_id r \<in> matched_categories q"
proof -
  from assms obtain t c a b w where
    m: "(t, c, a, b, w) \<in> set (join3 (time_data q) (base_prices q) (weights q))"
    and r: "r = coerce (t, c, a, b, w)"
    by (auto simp: merged_rows_join3)
  from join3_member [OF m] have "c \<in> matched_categories q"
    by (force simp: matched_categories_def)
  with r show ?thesis by simp
qed

lemma calculate_cpi_cong:
  "merged_rows q = merged_rows q' \<Longrightarrow> calculate_cpi g q = calculate_cpi g q'"
  by (simp add: calculate_cpi_def)

text \<open>
  C8. Every joined row belongs to a category that occurs in the period prices, in the
  base prices and in the weights; and the outcome of a run, value or error, is the one
  it has when the rows of all other categories are removed from the three inputs, so
  such a category has no part in it (in particular it does not count as a zero).
\<close>

theorem join_exclusive:
  fixes q :: "('t::linorder) query_data"
  shows "(\<forall>r \<in> set (merged_rows q). category_id r \<in> matched_categories q) \<and>
         calculate_cpi g (drop_unmatched q) = calculate_cpi g q"
  using merged_rows_category [of _ q] calculate_cpi_cong [OF merged_rows_drop_unmatched, of g q]
  by blast

theorem join_exclusive_witness:
  "merged_rows q_unmatched =
     [\<lparr>time_period = Some 1, category_id = ''A'', avg_price = Fin 12, base_price = Fin 10,
       weight = Fin 1\<rparr>]
   \<and> drop_unmatched q_unmatched =
     \<lparr>base_prices = [(''A'', Numeric (Fin 10))],
      time_data = [(Some 1, ''A'', Numeric (Fin 12))],
      weights = [(''A'', Numeric (Fin 1))]\<rparr>
   \<and> calculate_cpi Month (drop_unmatched q_unmatched) = calculate_cpi Month q_unmatched
   \<and> calculate_cpi Month q_unmatched =
       Inr \<lparr>gran = Month, warnings = [],
            points = [\<lparr>time_period_g = 1, cpi = Fin 120, cpi_index_g = Fin 100\<rparr>]\<rparr>"
proof -
  have m: "merged_rows q_unmatched =
     [\<lparr>time_period = Some 1, category_id = ''A'', avg_price = Fin 12, base_price = Fin 10,
       weight = Fin 1\<rparr>]"
    by (simp add: q_unmatched_def join_defs)
  have k: "matched_categories q_unmatched = {''A''}"
    by (auto simp: q_unmatched_def matched_categories_def)
  have d: "drop_unmatched q_unmatched =
     \<lparr>base_prices = [(''A'', Numeric (Fin 10))],
      time_data = [(Some 1, ''A'', Numeric (Fin 12))],
      weights = [(''A'', Numeric (Fin 1))]\<rparr>"
    unfolding drop_unmatched_def k by (simp add: q_unmatched_def)
  have c: "calculate_cpi Month q_unmatched =
       Inr \<lparr>gran = Month, warnings = [],
            points = [\<lparr>time_period_g = 1, cpi = Fin 120, cpi_index_g = Fin 100\<rparr>]\<rparr>"
    by (simp add: q_unmatched_def run_defs)
  from join_exclusive [of q_unmatched Month] m d c show ?thesis by simp
qed

section \<open>Properties of the series merger\<close>

lemmas merger_defs = save_combined_results_def assign_datetime_def sort_values_def
  merge_asof_def asof_nearest_def asof_backward_def asof_forward_def to_datetime_def
  ns_per_day_def Let_def

lemmas example_series = monthly_2025_def daily_2025_def daily_late_2025_def daily_three_def
  point_def

subsection \<open>The two candidates of a nearest lookup\<close>

lemma sorted_last_max:
  "sorted (map f ys) \<Longrightarrow> x \<in> set ys \<Longrightarrow> f x \<le> f (last ys)"
  by (induction ys) auto

lemma sorted_hd_min:
  "sorted (map f ys) \<Longrightarrow> x \<in> set ys \<Longrightarrow> f (hd ys) \<le> f x"
  by (induction ys) auto

lemma asof_backward_eq:
  "asof_backward k right =
     (let B = filter (\<lambda>m. ns (time_period_g m) \<le> k) right
      in if B = [] then None else Some (last B))"
  by (simp add: asof_backward_def Let_def split: list.splits)

lemma asof_forward_eq:
  "asof_forward k right =
     (let F = filter (\<lambda>m. k \<le> ns (time_period_g m)) right
      in if F = [] then None else Some (hd F))"
  by (simp add: asof_forward_def Let_def split: list.splits)

lemma asof_backward_Some:
  assumes "sorted (map (\<lambda>m. ns (time_period_g m)) right)"
    and "asof_backward k right = Some b"
  shows "b \<in> set right \<and> ns (time_period_g b) \<le> k \<and>
    (\<forall>x \<in> set right. ns (time_period_g x) \<le> k
       \<longrightarrow> ns (time_period_g x) \<le> ns (time_period_g b))"
proof -
  let ?B = "filter (\<lambda>m. ns (time_period_g m) \<le> k) right"
  from assms(2) have ne: "?B \<noteq> []" and b: "b = last ?B"
    by (auto simp: asof_backward_eq Let_def split: if_splits)
  from ne have "last ?B \<in> set ?B" by (rule last_in_set)
  with b have 1: "b \<in> set right" "ns (time_period_g b) \<le> k" by auto
  have s: "sorted (map (\<lambda>m. ns (time_period_g m)) ?B)"
    using assms(1) by (rule sorted_filter)
  have "ns (time_period_g x) \<le> ns (time_period_g b)"
    if "x \<in> set right" "ns (time_period_g x) \<le> k" for x
  proof -
    from that have "x \<in> set ?B" by simp
    with s show ?thesis unfolding b by (rule sorted_last_max)
  qed
  with 1 show ?thesis by blast
qed

lemma asof_forward_Some:
  assumes "sorted (map (\<lambda>m. ns (time_period_g m)) right)"
    and "asof_forward k right = Some f"
  shows "f \<in> set right \<and> k \<le> ns (time_period_g f) \<and>
    (\<forall>x \<in> set right. k \<le> ns (time_period_g x)
       \<longrightarrow> ns (time_period_g f) \<le> ns (time_period_g x))"
proof -
  let ?F = "filter (\<lambda>m. k \<le> ns (time_period_g m)) right"
  from assms(2) have ne: "?F \<noteq> []" and f: "f = hd ?F"
    by (auto simp: asof_forward_eq Let_def split: if_splits)
  from ne have "hd ?F \<in> set ?F" by (rule hd_in_set)
  with f have 1: "f \<in> set right" "k \<le> ns (time_period_g f)" by auto
  have s: "sorted (map (\<lambda>m. ns (time_period_g m)) ?F)"
    using assms(1) by (rule sorted_filter)
  have "ns (time_period_g f) \<le> ns (time_period_g x)"
    if "x \<in> set right" "k \<le> ns (time_period_g x)" for x
  proof -
    from that have "x \<in> set ?F" by simp
    with s show ?thesis unfolding f by (rule sorted_hd_min)
  qed
  with 1 show ?thesis by blast
qed

lemma asof_backward_None:
  "asof_backward k right = None \<Longrightarrow> x \<in> set right \<Longrightarrow> k < ns (time_period_g x)"
  by (auto simp: asof_backward_eq Let_def filter_empty_conv split: if_splits)

lemma asof_forward_None:
  "asof_forward k right = None \<Longrightarrow> x \<in> set right \<Longrightarrow> ns (time_period_g x) < k"
  by (auto simp: asof_forward_eq Let_def filter_empty_conv split: if_splits)

lemma asof_nearest_Nil: "asof_nearest k [] = None"
  by (simp add: asof_nearest_def asof_backward_def asof_forward_def)

text \<open>On a sorted right frame the lookup returns a row at least as close as any other,
  and of the rows at that distance one with the least key.\<close>

lemma asof_nearest_closest:
  assumes srt: "sorted (map (\<lambda>m. ns (time_period_g m)) right)"
    and m': "m' \<in> set right"
  shows "\<exists>m. asof_nearest k right = Some m \<and> m \<in> set right \<and>
      \<bar>k - ns (time_period_g m)\<bar> \<le> \<bar>k - ns (time_period_g m')\<bar> \<and>
      (\<bar>k - ns (time_period_g m)\<bar> = \<bar>k - ns (time_period_g m')\<bar>
         \<longrightarrow> ns (time_period_g m) \<le> ns (time_period_g m'))"
proof (cases "asof_backward k right")
  case None
  note bn = this
  from asof_backward_None [OF bn m'] have lt: "k < ns (time_period_g m')" .
  show ?thesis
  proof (cases "asof_forward k right")
    case None
    from asof_forward_None [OF None m'] lt show ?thesis by simp
  next
    case (Some f)
    from asof_forward_Some [OF srt Some] m' lt
    have "f \<in> set right" "k \<le> ns (time_period_g f)"
      "ns (time_period_g f) \<le> ns (time_period_g m')"
      by auto
    moreover have "asof_nearest k right = Some f" by (simp add: asof_nearest_def bn Some)
    ultimately show ?thesis by auto
  qed
next
  case (Some b)
  note bs = this
  from asof_backward_Some [OF srt bs]
  have b: "b \<in> set right" "ns (time_period_g b) \<le> k"
    "\<And>x. x \<in> set right \<Longrightarrow> ns (time_period_g x) \<le> k
        \<Longrightarrow> ns (time_period_g x) \<le> ns (time_period_g b)"
    by auto
  show ?thesis
  proof (cases "asof_forward k right")
    case None
    from asof_forward_None [OF None m'] have "ns (time_period_g m') < k" .
    with b(3) [OF m'] have "ns (time_period_g m') \<le> ns (time_period_g b)" by simp
    moreover have "asof_nearest k right = Some b" by (simp add: asof_nearest_def bs None)
    ultimately show ?thesis using b(1,2) by auto
  next
    case (Some f)
    from asof_forward_Some [OF srt Some]
    have f: "f \<in> set right" "k \<le> ns (time_period_g f)"
      "\<And>x. x \<in> set right \<Longrightarrow> k \<le> ns (time_period_g x)
          \<Longrightarrow> ns (time_period_g f) \<le> ns (time_period_g x)"
      by auto
    show ?thesis
    proof (cases "k - ns (time_period_g b) \<le> ns (time_period_g f) - k")
      case True
      then have r: "asof_nearest k right = Some b" by (simp add: asof_nearest_def bs Some)
      show ?thesis
      proof (cases "ns (time_period_g m') \<le> k")
        case True
        from b(3) [OF m' True] b(1,2) r show ?thesis by auto
      next
        case False
        then have "k \<le> ns (time_period_g m')" by simp
        from f(3) [OF m' this] True b(1,2) r False show ?thesis by auto
      qed
    next
      case False
      then have r: "asof_nearest k right = Some f" by (simp add: asof_nearest_def bs Some)
      show ?thesis
      proof (cases "ns (time_period_g m') \<le> k")
        case True
        from b(3) [OF m' True] False f(1,2) b(2) r show ?thesis by auto
      next
        case F2: False
        then have "k \<le> ns (time_period_g m')" by simp
        from f(3) [OF m' this] f(1,2) r show ?thesis by auto
      qed
    qed
  qed
qed

subsection \<open>The parts of the effect\<close>

lemma sorted_sort_values: "sorted (map (\<lambda>m. ns (time_period_g m)) (sort_values df))"
  by (simp add: sort_values_def)

lemma set_sort_values: "set (sort_values df) = set df"
  by (simp add: sort_values_def)

lemma csv_rows_eq:
  "csv_rows (save_combined_results monthly daily) =
     merge_asof (sort_values (assign_datetime daily)) (sort_values (assign_datetime monthly))"
  by (simp add: save_combined_results_def Let_def)

lemma monthly_after_eq:
  "monthly_after (save_combined_results monthly daily) = assign_datetime monthly"
  by (simp add: save_combined_results_def Let_def)

lemma daily_after_eq:
  "daily_after (save_combined_results monthly daily) = assign_datetime daily"
  by (simp add: save_combined_results_def Let_def)

lemma day_part_merge_asof: "map day_part (merge_asof left right) = left"
  by (simp add: merge_asof_def comp_def)

subsection \<open>The rows of the two series in the output\<close>

lemma assign_datetime_eq: "assign_datetime df = map with_datetime df"
  by (simp add: assign_datetime_def with_datetime_def)

lemma ns_to_datetime: "ns (to_datetime c) = ns c"
  by (simp add: to_datetime_def)

lemma ns_with_datetime: "ns (time_period_g (with_datetime r)) = ns (time_period_g r)"
  by (simp add: with_datetime_def ns_to_datetime)

lemma csv_rows_day_parts:
  "map day_part (csv_rows (save_combined_results monthly daily))
     = sort_values (map with_datetime daily)"
  by (simp add: csv_rows_eq day_part_merge_asof assign_datetime_eq)

lemma csv_rows_month_part:
  assumes "row \<in> set (csv_rows (save_combined_results monthly daily))"
  shows "month_part row =
     asof_nearest (ns (time_period_g (day_part row))) (sort_values (map with_datetime monthly))"
  using assms by (auto simp: csv_rows_eq merge_asof_def assign_datetime_eq)

subsection \<open>Nearest match\<close>

text \<open>
  C6. Every row of the daily series is in the combined output, with its period
  converted. Every row of the combined output is such a row of the daily series,
  together with a row of the monthly series (its period converted too) to which no row
  of the monthly series is closer in time; and a row of the monthly series at the
  same distance is not earlier than it.
\<close>

theorem nearest_month_attached:
  assumes m': "m' \<in> set monthly"
  shows "(\<forall>d \<in> set daily. \<exists>row \<in> set (csv_rows (save_combined_results monthly daily)).
            day_part row = with_datetime d) \<and>
         (\<forall>row \<in> set (csv_rows (save_combined_results monthly daily)).
            \<exists>d \<in> set daily. \<exists>m \<in> set monthly.
              day_part row = with_datetime d \<and> month_part row = Some (with_datetime m) \<and>
              \<bar>ns (time_period_g d) - ns (time_period_g m)\<bar>
                \<le> \<bar>ns (time_period_g d) - ns (time_period_g m')\<bar> \<and>
              (\<bar>ns (time_period_g d) - ns (time_period_g m)\<bar>
                 = \<bar>ns (time_period_g d) - ns (time_period_g m')\<bar>
                 \<longrightarrow> ns (time_period_g m) \<le> ns (time_period_g m')))"
proof (intro conjI ballI)
  fix d assume "d \<in> set daily"
  then have "with_datetime d \<in> set (map day_part (csv_rows (save_combined_results monthly daily)))"
    by (simp add: csv_rows_day_parts set_sort_values)
  then show "\<exists>row \<in> set (csv_rows (save_combined_results monthly daily)).
      day_part row = with_datetime d"
    by auto
next
  fix row assume row: "row \<in> set (csv_rows (save_combined_results monthly daily))"
  let ?right = "sort_values (map with_datetime monthly)"
  let ?k = "ns (time_period_g (day_part row))"
  from row have "day_part row \<in> set (map day_part (csv_rows (save_combined_results monthly daily)))"
    by simp
  then obtain d where d: "d \<in> set daily" "day_part row = with_datetime d"
    by (auto simp: csv_rows_day_parts set_sort_values)
  from d(2) have k: "?k = ns (time_period_g d)" by (simp add: ns_with_datetime)
  from m' have "with_datetime m' \<in> set ?right" by (simp add: set_sort_values)
  from asof_nearest_closest [OF sorted_sort_values this, of ?k]
  obtain x where x: "asof_nearest ?k ?right = Some x" "x \<in> set ?right"
    "\<bar>?k - ns (time_period_g x)\<bar> \<le> \<bar>?k - ns (time_period_g (with_datetime m'))\<bar>"
    "\<bar>?k - ns (time_period_g x)\<bar> = \<bar>?k - ns (time_period_g (with_datetime m'))\<bar>
       \<longrightarrow> ns (time_period_g x) \<le> ns (time_period_g (with_datetime m'))"
    by blast
  from x(2) obtain m where m: "m \<in> set monthly" "x = with_datetime m"
    by (auto simp: set_sort_values)
  from x(1) m(2) have "month_part row = Some (with_datetime m)"
    by (simp add: csv_rows_month_part [OF row])
  with d m(1) x(3,4) show "\<exists>d \<in> set daily. \<exists>m \<in> set monthly.
              day_part row = with_datetime d \<and> month_part row = Some (with_datetime m) \<and>
              \<bar>ns (time_period_g d) - ns (time_period_g m)\<bar>
                \<le> \<bar>ns (time_period_g d) - ns (time_period_g m')\<bar> \<and>
              (\<bar>ns (time_period_g d) - ns (time_period_g m)\<bar>
                 = \<bar>ns (time_period_g d) - ns (time_period_g m')\<bar>
                 \<longrightarrow> ns (time_period_g m) \<le> ns (time_period_g m'))"
    unfolding m(2) k ns_with_datetime by blast
qed

text \<open>
  The daily row of 2025-01-15 gets the monthly row of 2025-01-01, 14 days away, not the
  one of 2025-02-01, 17 days away; the daily row of 2025-01-30 gets the monthly row of
  2025-02-01; and day 10 between the monthly rows of days 8 and 12 gets the earlier
  one.
\<close>

theorem nearest_month_attached_witness:
  "csv_rows (save_combined_results monthly_2025 daily_late_2025)
     = [\<lparr>day_part = point (Timestamp (20103 * ns_per_day)) 102,
         month_part = Some (point (Timestamp (20089 * ns_per_day)) 100)\<rparr>,
        \<lparr>day_part = point (Timestamp (20118 * ns_per_day)) 104,
         month_part = Some (point (Timestamp (20120 * ns_per_day)) 101)\<rparr>]
   \<and> \<bar>20103 * ns_per_day - 20089 * ns_per_day\<bar> = 14 * ns_per_day
   \<and> \<bar>20103 * ns_per_day - 20120 * ns_per_day\<bar> = 17 * ns_per_day
   \<and> csv_rows (save_combined_results [point (DateObj 12) 101, point (DateObj 8) 100]
                  [point (DateObj 10) 102])
     = [\<lparr>day_part = point (Timestamp (10 * ns_per_day)) 102,
         month_part = Some (point (Timestamp (8 * ns_per_day)) 100)\<rparr>]"
proof -
  have m': "point (DateObj 20120) 101 \<in> set monthly_2025"
    by (simp add: monthly_2025_def)
  have c: "csv_rows (save_combined_results monthly_2025 daily_late_2025)
     = [\<lparr>day_part = point (Timestamp (20103 * ns_per_day)) 102,
         month_part = Some (point (Timestamp (20089 * ns_per_day)) 100)\<rparr>,
        \<lparr>day_part = point (Timestamp (20118 * ns_per_day)) 104,
         month_part = Some (point (Timestamp (20120 * ns_per_day)) 101)\<rparr>]"
    by (simp add: merger_defs example_series)
  have t: "csv_rows (save_combined_results [point (DateObj 12) 101, point (DateObj 8) 100]
                  [point (DateObj 10) 102])
     = [\<lparr>day_part = point (Timestamp (10 * ns_per_day)) 102,
         month_part = Some (point (Timestamp (8 * ns_per_day)) 100)\<rparr>]"
    by (simp add: merger_defs point_def)
  from nearest_month_attached [OF m', of daily_late_2025] c t show ?thesis
    by (simp add: ns_per_day_def)
qed

subsection \<open>Completeness of the merge\<close>

text \<open>
  C7. The combined output has as many rows as the daily series passed in, and its
  daily parts are exactly the rows of that series with their period converted, each
  as often as it occurs there; so are, in particular, their periods.
\<close>

theorem merge_complete:
  "length (csv_rows (save_combined_results monthly daily)) = length daily \<and>
   mset (map day_part (csv_rows (save_combined_results monthly daily)))
     = mset (map with_datetime daily) \<and>
   mset (map (\<lambda>row. ns (time_period_g (day_part row)))
           (csv_rows (save_combined_results monthly daily)))
     = mset (map (\<lambda>d. ns (time_period_g d)) daily)"
proof -
  let ?csv = "csv_rows (save_combined_results monthly daily)"
  have p: "mset (map day_part ?csv) = mset (map with_datetime daily)"
    by (simp add: csv_rows_day_parts sort_values_def)
  have "length (map day_part ?csv) = length (map with_datetime daily)"
    using p by (rule mset_eq_length)
  then have l: "length ?csv = length daily" by simp
  have "mset (map (\<lambda>r. ns (time_period_g r)) (map day_part ?csv))
      = mset (map (\<lambda>r. ns (time_period_g r)) (map with_datetime daily))"
    using p by (metis mset_map)
  then have "mset (map (\<lambda>row. ns (time_period_g (day_part row))) ?csv)
      = mset (map (\<lambda>d. ns (time_period_g d)) daily)"
    by (simp add: comp_def ns_with_datetime)
  with l p show ?thesis by simp
qed

text \<open>Three daily rows, out of order, come out once each.\<close>

theorem merge_complete_witness:
  "length (csv_rows (save_combined_results monthly_2025 daily_three)) = 3 \<and>
   map day_part (csv_rows (save_combined_results monthly_2025 daily_three))
     = [point (Timestamp (1 * ns_per_day)) 101, point (Timestamp (2 * ns_per_day)) 102,
        point (Timestamp (3 * ns_per_day)) 103] \<and>
   mset (map day_part (csv_rows (save_combined_results monthly_2025 daily_three)))
     = mset (map with_datetime daily_three)"
  using merge_complete [of monthly_2025 daily_three]
  by (simp add: merger_defs example_series)

subsection \<open>Empty series\<close>

text \<open>
  C9, as the code has it. With an empty daily series the combined output is empty.
  With an empty monthly series it has one row for every daily row, each without
  monthly columns. Neither raises.
\<close>

theorem merge_empty_inputs:
  "csv_rows (save_combined_results monthly []) = [] \<and>
   csv_rows (save_combined_results [] daily)
     = map (\<lambda>d. \<lparr>day_part = d, month_part = None\<rparr>) (sort_values (assign_datetime daily))"
  by (simp add: csv_rows_eq merge_asof_def assign_datetime_def sort_values_def asof_nearest_Nil)

theorem merge_empty_inputs_witness:
  "csv_rows (save_combined_results monthly_2025 []) = [] \<and>
   csv_rows (save_combined_results [] []) = []"
  using merge_empty_inputs [of monthly_2025 "[]"]
  by (simp add: sort_values_def assign_datetime_def)

text \<open>C9 as stated fails for an empty monthly series: the daily row is kept.\<close>

theorem merge_empty_inputs_counterexample:
  "csv_rows (save_combined_results [] daily_2025)
     = [\<lparr>day_part = point (Timestamp (20103 * ns_per_day)) 102, month_part = None\<rparr>]
   \<and> length (csv_rows (save_combined_results [] daily_2025)) = 1"
  by (simp add: merger_defs example_series)

subsection \<open>Effect on the caller's frames\<close>

text \<open>
  C10. After a call, the period column of the caller's daily frame and of the caller's
  monthly frame hold the converted values, row by row, and the columns \<^verbatim>\<open>cpi\<close> and
  \<^verbatim>\<open>cpi_index\<close> of both frames are as before (neither frame is sorted or
  shortened).
\<close>

theorem merger_mutates_period_columns:
  "map time_period_g (daily_after (save_combined_results monthly daily))
     = map (\<lambda>r. to_datetime (time_period_g r)) daily \<and>
   map cpi (daily_after (save_combined_results monthly daily)) = map cpi daily \<and>
   map cpi_index_g (daily_after (save_combined_results monthly daily)) = map cpi_index_g daily \<and>
   map time_period_g (monthly_after (save_combined_results monthly daily))
     = map (\<lambda>r. to_datetime (time_period_g r)) monthly \<and>
   map cpi (monthly_after (save_combined_results monthly daily)) = map cpi monthly \<and>
   map cpi_index_g (monthly_after (save_combined_results monthly daily))
     = map cpi_index_g monthly"
  by (simp add: daily_after_eq monthly_after_eq assign_datetime_def comp_def)

text \<open>Frames of date objects come back changed: their periods are timestamps.\<close>

theorem merger_mutates_period_columns_witness:
  "daily_after (save_combined_results [point (DateObj 20089) 100] daily_2025)
     = [point (Timestamp (20103 * ns_per_day)) 102] \<and>
   monthly_after (save_combined_results [point (DateObj 20089) 100] daily_2025)
     = [point (Timestamp (20089 * ns_per_day)) 100] \<and>
   daily_after (save_combined_results [point (DateObj 20089) 100] daily_2025) \<noteq> daily_2025"
proof -
  let ?R = "save_combined_results [point (DateObj 20089) 100] daily_2025"
  obtain d where d: "daily_after ?R = [d]"
    by (simp add: daily_after_eq assign_datetime_def daily_2025_def)
  obtain m where m: "monthly_after ?R = [m]"
    by (simp add: monthly_after_eq assign_datetime_def)
  from merger_mutates_period_columns [of "[point (DateObj 20089) 100]" daily_2025] d m
  have "time_period_g d = Timestamp (20103 * ns_per_day)" "cpi d = Fin 102"
    "cpi_index_g d = Fin 102"
    "time_period_g m = Timestamp (20089 * ns_per_day)" "cpi m = Fin 100"
    "cpi_index_g m = Fin 100"
    by (simp_all add: example_series to_datetime_def)
  then have "d = point (Timestamp (20103 * ns_per_day)) 102"
    "m = point (Timestamp (20089 * ns_per_day)) 100"
    by (simp_all add: point_def)
  with d m show ?thesis by (simp add: example_series)
qed

end
